theory Spec2Isabelle
  imports Complex_Main "HOL-Library.Multiset"
begin

section \<open>Python strings\<close>

text \<open>
  A Python \<^verbatim>\<open>str\<close> is modelled as a \<^typ>\<open>string\<close>: a list of characters, each
  read as one code point in the range U+0000 .. U+00FF. Lengths and indices therefore
  count code points, as Python does. Texts with code points above U+00FF are outside
  the model.
\<close>

definition py_isspace :: "char \<Rightarrow> bool" where
  \<comment> \<open>\<^verbatim>\<open>str.isspace\<close> on one code point below 256: TAB..CR, FS..US, SPACE, NEL, NBSP.
      \<^verbatim>\<open>str.strip()\<close> and the regular expression class \<^verbatim>\<open>\s\<close> use the same set.\<close>
  "py_isspace c =
     (let n = (of_char c :: nat)
      in (9 \<le> n \<and> n \<le> 13) \<or> (28 \<le> n \<and> n \<le> 32) \<or> n = 133 \<or> n = 160)"

definition lstrip :: "string \<Rightarrow> string" where
  "lstrip s = dropWhile py_isspace s"

definition rstrip :: "string \<Rightarrow> string" where
  "rstrip s = rev (dropWhile py_isspace (rev s))"

definition strip :: "string \<Rightarrow> string" where
  \<comment> \<open>\<^verbatim>\<open>s.strip()\<close>\<close>
  "strip s = rstrip (lstrip s)"

definition startswith :: "string \<Rightarrow> string \<Rightarrow> bool" where
  \<comment> \<open>\<^verbatim>\<open>s.startswith(m)\<close>\<close>
  "startswith s m = (take (length m) s = m)"

definition endswith :: "string \<Rightarrow> string \<Rightarrow> bool" where
  \<comment> \<open>\<^verbatim>\<open>s.endswith(m)\<close>\<close>
  "endswith s m = (length m \<le> length s \<and> drop (length s - length m) s = m)"

definition find_char :: "string \<Rightarrow> char \<Rightarrow> int" where
  \<comment> \<open>\<^verbatim>\<open>s.find(c)\<close> for a one-character \<^verbatim>\<open>c\<close>: the first index, or -1.\<close>
  "find_char s c =
     (if c \<in> set s then int (length (takeWhile (\<lambda>x. x \<noteq> c) s)) else - 1)"

definition slice :: "string \<Rightarrow> nat \<Rightarrow> nat \<Rightarrow> string" where
  \<comment> \<open>\<^verbatim>\<open>s[a:b]\<close> for \<^verbatim>\<open>0 <= a\<close>, \<^verbatim>\<open>0 <= b\<close>\<close>
  "slice s a b = take (b - a) (drop a s)"

section \<open>The structured-text locator\<close>

text \<open>
  \<^verbatim>\<open>extract_json_from_model_output\<close> (src/main.py, lines 147-181).
\<close>

definition strip_fence :: "string \<Rightarrow> string \<Rightarrow> string" where
  \<comment> \<open>One round of the loop over the markers: the leading test, then the trailing test
      on the text the leading test left.\<close>
  "strip_fence marker cleaned =
     (let cleaned1 = (if startswith cleaned marker
                      then strip (drop (length marker) cleaned) else cleaned)
      in if endswith cleaned1 marker
         then strip (take (length cleaned1 - length marker) cleaned1) else cleaned1)"

fun scan_close :: "char list \<Rightarrow> nat \<Rightarrow> string \<Rightarrow> nat option" where
  \<comment> \<open>The \<^verbatim>\<open>for i, c in enumerate(cleaned[start_idx:])\<close> loop: the stack, the index
      \<^verbatim>\<open>i\<close>, the rest of the text. \<^verbatim>\<open>Some i\<close> is the \<^verbatim>\<open>i\<close> of the \<^verbatim>\<open>break\<close>; \<^verbatim>\<open>None\<close> is
      a loop that ran to the end. A closer pops whatever is on top of the stack.\<close>
  "scan_close stack i [] = None"
| "scan_close stack i (c # cs) =
     (if c = CHR ''{'' \<or> c = CHR ''[''
      then scan_close (stack @ [c]) (Suc i) cs
      else if c = CHR ''}'' \<or> c = CHR '']''
      then (if stack \<noteq> []
            then (if butlast stack = [] then Some i
                  else scan_close (butlast stack) (Suc i) cs)
            else scan_close stack (Suc i) cs)
      else scan_close stack (Suc i) cs)"

definition start_index :: "string \<Rightarrow> int" where
  \<comment> \<open>\<^verbatim>\<open>max(cleaned.find('{'), cleaned.find('['))\<close>\<close>
  "start_index cleaned = max (find_char cleaned (CHR ''{'')) (find_char cleaned (CHR ''[''))"

definition clean_fences :: "string \<Rightarrow> string" where
  \<comment> \<open>\<^verbatim>\<open>raw.strip()\<close>, then the loop over the two markers, in the order of the source\<close>
  \<open>clean_fences raw = strip_fence ''```'' (strip_fence ''```json'' (strip raw))\<close>

definition extract_json_from_model_output :: "string \<Rightarrow> string" where
  "extract_json_from_model_output raw =
     (if raw = [] then []
      else
        let cleaned = clean_fences raw;
            start_idx = start_index cleaned
        in if start_idx = - 1 then cleaned
           else (case scan_close [] 0 (drop (nat start_idx) cleaned) of
                   Some i \<Rightarrow> slice cleaned (nat start_idx) (nat start_idx + i + 1)
                 | None \<Rightarrow> drop (nat start_idx) cleaned))"

section \<open>Parsed JSON values and Python's dynamic operations on them\<close>

text \<open>
  What \<^verbatim>\<open>json.loads\<close> returns: \<^verbatim>\<open>None\<close>, \<^verbatim>\<open>bool\<close>, \<^verbatim>\<open>int\<close>, \<^verbatim>\<open>float\<close>, \<^verbatim>\<open>str\<close>,
  \<^verbatim>\<open>list\<close> and \<^verbatim>\<open>dict\<close>. A dict is an association list in insertion order; a lookup
  reads the first entry of a key.
\<close>

datatype pyfloat = Finite rat | PosInf | NegInf | NaN

datatype json =
    JNull
  | JBool bool
  | JInt int
  | JFloat pyfloat
  | JStr string
  | JList "json list"
  | JDict "(string \<times> json) list"

datatype exn =
    ValueError string
  | JSONDecodeError
  | TypeError
  | KeyError string
  | AttributeError
  | IndexError
  | RuntimeError string

fun dict_set :: "string \<Rightarrow> json \<Rightarrow> (string \<times> json) list \<Rightarrow> (string \<times> json) list" where
  \<comment> \<open>\<^verbatim>\<open>d[k] = v\<close>: an existing key keeps its place, a new key goes last.\<close>
  "dict_set k v [] = [(k, v)]"
| "dict_set k v ((k', v') # d) =
     (if k' = k then (k, v) # d else (k', v') # dict_set k v d)"

fun is_substring :: "string \<Rightarrow> string \<Rightarrow> bool" where
  \<comment> \<open>\<^verbatim>\<open>k in s\<close> for two strings\<close>
  "is_substring k [] = (k = [])"
| "is_substring k (c # cs) = (startswith (c # cs) k \<or> is_substring k cs)"

fun contains :: "json \<Rightarrow> string \<Rightarrow> exn + bool" where
  \<comment> \<open>\<^verbatim>\<open>k in x\<close> for a string \<^verbatim>\<open>k\<close>: a key of a dict, an element of a list, a
      substring of a string; any other value is not iterable.\<close>
  "contains (JDict d) k = Inr (map_of d k \<noteq> None)"
| "contains (JList xs) k = Inr (JStr k \<in> set xs)"
| "contains (JStr s) k = Inr (is_substring k s)"
| "contains _ k = Inl TypeError"

fun getitem :: "json \<Rightarrow> string \<Rightarrow> exn + json" where
  \<comment> \<open>\<^verbatim>\<open>x[k]\<close> for a string \<^verbatim>\<open>k\<close>\<close>
  "getitem (JDict d) k = (case map_of d k of None \<Rightarrow> Inl (KeyError k) | Some v \<Rightarrow> Inr v)"
| "getitem _ k = Inl TypeError"

fun setitem :: "json \<Rightarrow> string \<Rightarrow> json \<Rightarrow> exn + json" where
  \<comment> \<open>\<^verbatim>\<open>x[k] = v\<close> for a string \<^verbatim>\<open>k\<close>; the result is the updated \<^verbatim>\<open>x\<close>.\<close>
  "setitem (JDict d) k v = Inr (JDict (dict_set k v d))"
| "setitem _ k v = Inl TypeError"

fun truthy :: "json \<Rightarrow> bool" where
  \<comment> \<open>\<^verbatim>\<open>bool(x)\<close>\<close>
  "truthy JNull = False"
| "truthy (JBool b) = b"
| "truthy (JInt n) = (n \<noteq> 0)"
| "truthy (JFloat f) = (f \<noteq> Finite 0)"
| "truthy (JStr s) = (s \<noteq> [])"
| "truthy (JList xs) = (xs \<noteq> [])"
| "truthy (JDict d) = (d \<noteq> [])"

fun iterate :: "json \<Rightarrow> exn + json list" where
  \<comment> \<open>The values a \<^verbatim>\<open>for\<close> loop over \<^verbatim>\<open>x\<close> binds: the elements of a list, the keys
      of a dict, the characters of a string.\<close>
  "iterate (JList xs) = Inr xs"
| "iterate (JDict d) = Inr (map (\<lambda>(k, v). JStr k) d)"
| "iterate (JStr s) = Inr (map (\<lambda>c. JStr [c]) s)"
| "iterate _ = Inl TypeError"

fun for_each :: "('a \<Rightarrow> exn + 'b) \<Rightarrow> 'a list \<Rightarrow> exn + 'b list" where
  \<comment> \<open>A loop body run on each element in order; the first exception ends the loop.\<close>
  "for_each f [] = Inr []"
| "for_each f (x # xs) =
     (case f x of
        Inl e \<Rightarrow> Inl e
      | Inr y \<Rightarrow> (case for_each f xs of Inl e \<Rightarrow> Inl e | Inr ys \<Rightarrow> Inr (y # ys)))"

section \<open>Map links\<close>

text \<open>
  \<^verbatim>\<open>urllib.parse.quote_plus\<close> with its default arguments: the letters, the digits and
  \<^verbatim>\<open>_.-~\<close> stand for themselves, a space becomes \<^verbatim>\<open>+\<close>, and every other code point
  becomes the bytes of its UTF-8 encoding, each written \<^verbatim>\<open>%XX\<close> in upper-case hex.
\<close>

definition always_safe :: "char \<Rightarrow> bool" where
  \<open>always_safe c =
     (c \<in> set ''ABCDEFGHIJKLMNOPQRSTUVWXYZabcdefghijklmnopqrstuvwxyz0123456789_.-~'')\<close>

definition hex_digit :: "nat \<Rightarrow> char" where
  "hex_digit n = ''0123456789ABCDEF'' ! (n mod 16)"

definition utf8_bytes :: "char \<Rightarrow> nat list" where
  \<comment> \<open>UTF-8 of a code point below 256\<close>
  "utf8_bytes c =
     (let n = (of_char c :: nat)
      in if n < 128 then [n] else [192 + n div 64, 128 + n mod 64])"

definition quote_byte :: "nat \<Rightarrow> string" where
  "quote_byte b = [CHR ''%'', hex_digit (b div 16), hex_digit b]"

definition quote_plus :: "string \<Rightarrow> string" where
  "quote_plus s =
     concat (map (\<lambda>c. if always_safe c then [c]
                       else if c = CHR '' '' then ''+''
                       else concat (map quote_byte (utf8_bytes c))) s)"

definition generate_google_maps_link :: "string \<Rightarrow> string" where
  \<comment> \<open>src/main.py, lines 106-109\<close>
  "generate_google_maps_link place_name =
     ''https://www.google.com/maps/search/?api=1&query='' @ quote_plus place_name"

definition maps_prefix :: string where
  "maps_prefix = ''https://www.google.com/maps/''"

section \<open>The result normalizer\<close>

text \<open>
  The validation block of \<^verbatim>\<open>generate_itinerary\<close> (src/main.py, lines 363-388), on the
  value the parser returned. Every check and every subscript of the source is a branch
  here; the in-place updates of the source are returned as the updated value. What the
  block returns is then checked by the web framework against \<^verbatim>\<open>ItineraryResponse\<close>; that
  check belongs to the framework and is not modelled.
\<close>

definition link_from_title :: "json \<Rightarrow> exn + json" where
  \<comment> \<open>\<^verbatim>\<open>activity["map_link"] = generate_google_maps_link(activity["title"])\<close>;
      \<^verbatim>\<open>quote_plus\<close> raises \<^verbatim>\<open>TypeError\<close> on a title that is not a string.\<close>
  "link_from_title activity =
     (case getitem activity ''title'' of
        Inl e \<Rightarrow> Inl e
      | Inr (JStr t) \<Rightarrow> setitem activity ''map_link'' (JStr (generate_google_maps_link t))
      | Inr _ \<Rightarrow> Inl TypeError)"

fun str_startswith :: "json \<Rightarrow> string \<Rightarrow> exn + bool" where
  \<comment> \<open>\<^verbatim>\<open>x.startswith(m)\<close>: only a string has the method.\<close>
  "str_startswith (JStr s) m = Inr (startswith s m)"
| "str_startswith _ m = Inl AttributeError"

definition normalize_activity :: "json \<Rightarrow> exn + json" where
  \<comment> \<open>lines 381-386\<close>
  "normalize_activity activity =
     (case contains activity ''map_link'' of
        Inl e \<Rightarrow> Inl e
      | Inr has \<Rightarrow>
          if \<not> has then link_from_title activity
          else (case getitem activity ''map_link'' of
                  Inl e \<Rightarrow> Inl e
                | Inr link \<Rightarrow>
                    if \<not> truthy link then link_from_title activity
                    else (case str_startswith link maps_prefix of
                            Inl e \<Rightarrow> Inl e
                          | Inr ok \<Rightarrow> if \<not> ok then link_from_title activity
                                     else Inr activity)))"

definition normalize_activities :: "json \<Rightarrow> json \<Rightarrow> exn + json" where
  \<comment> \<open>\<^verbatim>\<open>for activity in day["activities"]\<close>: the elements of a list are updated in
      place; the keys of a dict and the characters of a string are strings, which the
      body cannot update.\<close>
  "normalize_activities day acts =
     (case iterate acts of
        Inl e \<Rightarrow> Inl e
      | Inr xs \<Rightarrow>
          (case for_each normalize_activity xs of
             Inl e \<Rightarrow> Inl e
           | Inr ys \<Rightarrow>
               (case acts of
                  JList _ \<Rightarrow> setitem day ''activities'' (JList ys)
                | _ \<Rightarrow> Inr day)))"

definition normalize_day :: "json \<Rightarrow> exn + json" where
  \<comment> \<open>lines 374-386, the body of \<^verbatim>\<open>for day in data["days"]\<close>\<close>
  "normalize_day day =
     (case contains day ''activities'' of
        Inl e \<Rightarrow> Inl e
      | Inr has \<Rightarrow>
          (case (if \<not> has then setitem day ''activities'' (JList []) else Inr day) of
             Inl e \<Rightarrow> Inl e
           | Inr day1 \<Rightarrow>
               (case contains day1 ''day'' of
                  Inl e \<Rightarrow> Inl e
                | Inr has_day \<Rightarrow>
                    if \<not> has_day then Inl (ValueError ''Each day must have a 'day' number'')
                    else (case getitem day1 ''activities'' of
                            Inl e \<Rightarrow> Inl e
                          | Inr acts \<Rightarrow> normalize_activities day1 acts))))"

definition wrap_days :: "json \<Rightarrow> exn + json" where
  \<comment> \<open>lines 364-368\<close>
  "wrap_days data =
     (case contains data ''days'' of
        Inl e \<Rightarrow> Inl e
      | Inr has \<Rightarrow>
          if \<not> has
          then (case data of
                  JList xs \<Rightarrow> Inr (JDict [(''days'', data)])
                | _ \<Rightarrow> Inl (ValueError ''Response missing 'days' array''))
          else Inr data)"

definition normalize_response :: "json \<Rightarrow> exn + json" where
  \<comment> \<open>lines 363-388\<close>
  "normalize_response data =
     (case wrap_days data of
        Inl e \<Rightarrow> Inl e
      | Inr data1 \<Rightarrow>
          (case getitem data1 ''days'' of
             Inl e \<Rightarrow> Inl e
           | Inr (JList days) \<Rightarrow>
               (case for_each normalize_day days of
                  Inl e \<Rightarrow> Inl e
                | Inr days' \<Rightarrow> setitem data1 ''days'' (JList days'))
           | Inr _ \<Rightarrow> Inl (ValueError '''days' should be an array'')))"

section \<open>The regular expressions of the source\<close>

text \<open>
  Python's \<^verbatim>\<open>re\<close> matches by backtracking: at a start position a greedy \<^verbatim>\<open>.*\<close> first
  takes one more character and only then tries the rest of the pattern where it
  stands, and \<^verbatim>\<open>re.search\<close> returns the match at the leftmost start position that
  has one. A pattern is a function from the text at a start position to the length
  of its match there.
\<close>

fun dot_star :: "(string \<Rightarrow> nat option) \<Rightarrow> string \<Rightarrow> nat option" where
  \<comment> \<open>\<^verbatim>\<open>.*\<close> under \<^verbatim>\<open>re.DOTALL\<close>, followed by the pattern \<^verbatim>\<open>k\<close>\<close>
  "dot_star k [] = k []"
| "dot_star k (c # cs) =
     (case dot_star k cs of Some n \<Rightarrow> Some (Suc n) | None \<Rightarrow> k (c # cs))"

fun re_search :: "(string \<Rightarrow> nat option) \<Rightarrow> string \<Rightarrow> string option" where
  \<comment> \<open>\<^verbatim>\<open>re.search(p, s)\<close>: the matched text, \<^verbatim>\<open>None\<close> without a match\<close>
  "re_search p [] = map_option (\<lambda>n. []) (p [])"
| "re_search p (c # cs) =
     (case p (c # cs) of Some n \<Rightarrow> Some (take n (c # cs)) | None \<Rightarrow> re_search p cs)"

fun close_brace :: "string \<Rightarrow> nat option" where
  \<comment> \<open>\<^verbatim>\<open>\}\<close>\<close>
  "close_brace (c # cs) = (if c = CHR ''}'' then Some 1 else None)"
| "close_brace [] = None"

fun object_pattern :: "string \<Rightarrow> nat option" where
  \<comment> \<open>\<^verbatim>\<open>\{.*\}\<close> with \<^verbatim>\<open>re.DOTALL\<close> (line 345)\<close>
  "object_pattern (c # cs) =
     (if c = CHR ''{'' then map_option Suc (dot_star close_brace cs) else None)"
| "object_pattern [] = None"

fun close_array :: "string \<Rightarrow> nat option" where
  \<comment> \<open>\<^verbatim>\<open>\}\s*\]\<close>: no character is both white space and \<^verbatim>\<open>]\<close>, so only the longest
      run of white space can be followed by the bracket.\<close>
  "close_array (c # cs) =
     (if c = CHR ''}'' then
        (case dropWhile py_isspace cs of
           d # _ \<Rightarrow> if d = CHR '']'' then Some (length (takeWhile py_isspace cs) + 2) else None
         | [] \<Rightarrow> None)
      else None)"
| "close_array [] = None"

fun array_pattern :: "string \<Rightarrow> nat option" where
  \<comment> \<open>\<^verbatim>\<open>(\[\s*\{.*\}\s*\])\<close> with \<^verbatim>\<open>re.DOTALL\<close> (line 350)\<close>
  "array_pattern (c # cs) =
     (if c = CHR ''['' then
        (case dropWhile py_isspace cs of
           d # ds \<Rightarrow>
             if d = CHR ''{''
             then map_option (\<lambda>n. length (takeWhile py_isspace cs) + 2 + n)
                    (dot_star close_array ds)
             else None
         | [] \<Rightarrow> None)
      else None)"
| "array_pattern [] = None"

section \<open>The malformed-syntax repair\<close>

text \<open>
  \<^verbatim>\<open>fix_json\<close> (src/main.py, lines 183-191): two \<^verbatim>\<open>re.sub\<close> calls. \<^verbatim>\<open>re.sub\<close> replaces
  the leftmost match, then goes on after its end. In both patterns the character
  classes that follow one another are disjoint (white space, identifier characters,
  the colon, the closing brackets), so at every start position only the longest runs
  can match and backtracking finds nothing else.
\<close>

definition ident_start :: "char \<Rightarrow> bool" where
  \<comment> \<open>\<^verbatim>\<open>[a-zA-Z_]\<close>\<close>
  \<open>ident_start c = (c \<in> set ''abcdefghijklmnopqrstuvwxyzABCDEFGHIJKLMNOPQRSTUVWXYZ_'')\<close>

definition ident_char :: "char \<Rightarrow> bool" where
  \<comment> \<open>\<^verbatim>\<open>[a-zA-Z0-9_]\<close>\<close>
  \<open>ident_char c =
     (c \<in> set ''abcdefghijklmnopqrstuvwxyzABCDEFGHIJKLMNOPQRSTUVWXYZ0123456789_'')\<close>

definition match_key :: "string \<Rightarrow> (string \<times> string \<times> string) option" where
  \<comment> \<open>\<^verbatim>\<open>([{,]\s*)([a-zA-Z_][a-zA-Z0-9_]*)(\s*:)\<close> at the start of \<^verbatim>\<open>s\<close>: the three groups\<close>
  "match_key s =
     (case s of
        [] \<Rightarrow> None
      | c # r \<Rightarrow>
          if c = CHR ''{'' \<or> c = CHR '','' then
            (let w1 = takeWhile py_isspace r; r1 = dropWhile py_isspace r
             in case r1 of
                  [] \<Rightarrow> None
                | h # _ \<Rightarrow>
                    if ident_start h then
                      (let name = takeWhile ident_char r1; r2 = dropWhile ident_char r1;
                           w2 = takeWhile py_isspace r2; r3 = dropWhile py_isspace r2
                       in case r3 of
                            [] \<Rightarrow> None
                          | e # _ \<Rightarrow>
                              if e = CHR '':'' then Some (c # w1, name, w2 @ [e]) else None)
                    else None)
          else None)"

function sub_keys :: "string \<Rightarrow> string" where
  \<comment> \<open>The first \<^verbatim>\<open>re.sub\<close>: each match becomes group 1, a quote, group 2, a quote,
      group 3.\<close>
  "sub_keys [] = []"
| "sub_keys (c # cs) =
     (case match_key (c # cs) of
        Some (g1, g2, g3) \<Rightarrow>
          g1 @ [CHR 0x22] @ g2 @ [CHR 0x22] @ g3
            @ sub_keys (drop (length g1 + length g2 + length g3) (c # cs))
      | None \<Rightarrow> c # sub_keys cs)"
  by pat_completeness auto
termination
proof (relation "measure length")
  fix c cs x g1 y g2 g3
  assume "match_key (c # cs) = Some x" "(g1, y) = x" "(g2, g3) = y"
  then have "g1 \<noteq> []"
    by (auto simp: match_key_def Let_def split: if_splits list.splits)
  then show "(drop (length g1 + length g2 + length g3) (c # cs), c # cs) \<in> measure length"
    by (cases g1) auto
qed auto

definition match_trailing :: "string \<Rightarrow> (nat \<times> char) option" where
  \<comment> \<open>\<^verbatim>\<open>,\s*([}\]])\<close> at the start of \<^verbatim>\<open>s\<close>: the length of the match and group 1\<close>
  "match_trailing s =
     (case s of
        [] \<Rightarrow> None
      | c # r \<Rightarrow>
          if c = CHR '','' then
            (case dropWhile py_isspace r of
               [] \<Rightarrow> None
             | d # _ \<Rightarrow> if d = CHR ''}'' \<or> d = CHR '']''
                        then Some (length (takeWhile py_isspace r) + 2, d) else None)
          else None)"

function sub_trailing :: "string \<Rightarrow> string" where
  \<comment> \<open>The second \<^verbatim>\<open>re.sub\<close>: each match becomes its group 1.\<close>
  "sub_trailing [] = []"
| "sub_trailing (c # cs) =
     (case match_trailing (c # cs) of
        Some (n, d) \<Rightarrow> d # sub_trailing (drop n (c # cs))
      | None \<Rightarrow> c # sub_trailing cs)"
  by pat_completeness auto
termination
proof (relation "measure length")
  fix c cs x n d
  assume "match_trailing (c # cs) = Some x" "(n, d) = x"
  then have "0 < n"
    by (auto simp: match_trailing_def split: if_splits list.splits)
  then show "(drop n (c # cs), c # cs) \<in> measure length"
    by (cases n) auto
qed auto

definition fix_json :: "string \<Rightarrow> string" where
  "fix_json json_str = sub_trailing (sub_keys json_str)"

section \<open>From the generator's text to the response\<close>

text \<open>
  The inner \<^verbatim>\<open>try\<close> block of \<^verbatim>\<open>generate_itinerary\<close> (src/main.py, lines 339-396).
  \<^verbatim>\<open>json.loads\<close> belongs to Python's library; it is a parameter \<^verbatim>\<open>loads\<close> here, any
  function from a text to a parsed value or an exception.
\<close>

definition select_json_text :: "string \<Rightarrow> string" where
  \<comment> \<open>lines 340-352\<close>
  \<open>select_json_text raw =
     (let json_text = extract_json_from_model_output raw;
          json_text1 =
            (if \<not> startswith (strip json_text) ''{''
             then (case re_search object_pattern raw of
                     Some m \<Rightarrow> m
                   | None \<Rightarrow> json_text)
             else json_text)
      in if \<not> startswith (strip json_text1) ''{''
         then (case re_search array_pattern raw of
                 Some g \<Rightarrow> ''{"days": '' @ g @ ''}''
               | None \<Rightarrow> json_text1)
         else json_text1)\<close>

text \<open>
  The two fallbacks of lines 344-352, each as a function of the raw text and of the
  text selected so far; \<^verbatim>\<open>select_json_text\<close> is the locator followed by the two of them
  (lemma \<^verbatim>\<open>select_json_text_fallbacks\<close>).
\<close>

definition object_fallback :: "string \<Rightarrow> string \<Rightarrow> string" where
  \<comment> \<open>lines 344-347\<close>
  \<open>object_fallback raw json_text =
     (if \<not> startswith (strip json_text) ''{''
      then (case re_search object_pattern raw of
              Some m \<Rightarrow> m
            | None \<Rightarrow> json_text)
      else json_text)\<close>

definition days_fallback :: "string \<Rightarrow> string \<Rightarrow> string" where
  \<comment> \<open>lines 349-352\<close>
  \<open>days_fallback raw json_text =
     (if \<not> startswith (strip json_text) ''{''
      then (case re_search array_pattern raw of
              Some g \<Rightarrow> ''{"days": '' @ g @ ''}''
            | None \<Rightarrow> json_text)
      else json_text)\<close>


definition parse_json_text :: "(string \<Rightarrow> exn + json) \<Rightarrow> string \<Rightarrow> exn + json" where
  \<comment> \<open>lines 357-361: the repair runs only after a \<^verbatim>\<open>JSONDecodeError\<close>.\<close>
  "parse_json_text loads json_text =
     (case loads json_text of
        Inl JSONDecodeError \<Rightarrow> loads (fix_json json_text)
      | r \<Rightarrow> r)"

datatype http_error = HTTPException nat string

definition interpret_output :: "(string \<Rightarrow> exn + json) \<Rightarrow> string \<Rightarrow> exn + json" where
  \<comment> \<open>lines 340-388, before the handler\<close>
  "interpret_output loads raw =
     (case parse_json_text loads (select_json_text raw) of
        Inl e \<Rightarrow> Inl e
      | Inr data \<Rightarrow> normalize_response data)"

definition http_response :: "exn + json \<Rightarrow> http_error + json" where
  \<comment> \<open>lines 390-396: every exception of the block becomes the same HTTP error.\<close>
  "http_response r =
     (case r of
        Inl e \<Rightarrow>
          Inl (HTTPException 500
            ''We couldn't process the AI response. Please try again with different parameters.'')
      | Inr data \<Rightarrow> Inr data)"

definition handle_output :: "(string \<Rightarrow> exn + json) \<Rightarrow> string \<Rightarrow> http_error + json" where
  "handle_output loads raw = http_response (interpret_output loads raw)"

section \<open>The prompt builder\<close>

text \<open>
  \<^verbatim>\<open>build_location_fallback\<close> (src/main.py, lines 95-104). The request model types
  \<^verbatim>\<open>categories\<close> as an optional list of strings, so the branch for a value that is not a
  list is not reached.
\<close>

fun join :: "string \<Rightarrow> string list \<Rightarrow> string" where
  \<comment> \<open>\<^verbatim>\<open>sep.join(xs)\<close>\<close>
  "join sep [] = []"
| "join sep [x] = x"
| "join sep (x # y # ys) = x @ sep @ join sep (y # ys)"

definition or_empty :: "string option \<Rightarrow> string" where
  \<comment> \<open>\<^verbatim>\<open>x or ""\<close> for an optional string\<close>
  "or_empty x = (case x of None \<Rightarrow> [] | Some s \<Rightarrow> s)"

definition build_location_fallback :: "string option \<Rightarrow> string list option \<Rightarrow> string" where
  "build_location_fallback specific_places categories =
     (let sp = strip (or_empty specific_places)
      in if sp \<noteq> [] then sp
         else (case categories of
                 Some (c # cs) \<Rightarrow> join '', '' (c # cs)
               | _ \<Rightarrow> []))"

text \<open>
  \<^verbatim>\<open>ItineraryRequest\<close> (lines 53-63): a field typed \<^verbatim>\<open>Optional\<close> holds \<^verbatim>\<open>None\<close> when the
  request gives it as \<^verbatim>\<open>null\<close>. The field \<^verbatim>\<open>notes\<close> is written \<^verbatim>\<open>notes'\<close>.
\<close>

record itinerary_request =
  from_location :: string
  specific_places :: "string option"
  categories :: "string list option"
  days :: int
  currency :: string
  budget :: "string option"
  intent :: "string list option"
  group :: "string option"
  stay :: "string option"
  notes' :: "string option"

text \<open>
  A document of the prompt collection: its \<^verbatim>\<open>part_id\<close> and its \<^verbatim>\<open>text\<close> (written \<^verbatim>\<open>text'\<close>),
  which the store does not type: \<^verbatim>\<open>None\<close> is a document without the field.
\<close>

record prompt_part =
  part_id :: int
  text' :: "json option"

definition get_prompt_parts :: "prompt_part list \<Rightarrow> prompt_part list" where
  \<comment> \<open>lines 90-93: the documents of the collection, sorted by \<^verbatim>\<open>part_id\<close> ascending by the
      store. The store fixes no order among documents of equal \<^verbatim>\<open>part_id\<close>; the
      properties below take the ordinals distinct.\<close>
  "get_prompt_parts col = sort_key part_id col"

definition join_or_empty :: "string list option \<Rightarrow> string" where
  \<comment> \<open>\<^verbatim>\<open>", ".join(xs) if xs else ""\<close>\<close>
  "join_or_empty xs = (case xs of Some (c # cs) \<Rightarrow> join '', '' (c # cs) | _ \<Rightarrow> [])"

fun digits :: "nat \<Rightarrow> string" where
  "digits n =
     (if n < 10 then [''0123456789'' ! n]
      else digits (n div 10) @ [''0123456789'' ! (n mod 10)])"

declare digits.simps [simp del]

definition str_int :: "int \<Rightarrow> string" where
  \<comment> \<open>\<^verbatim>\<open>str(n)\<close> for an integer\<close>
  "str_int n = (if n < 0 then CHR ''-'' # digits (nat (- n)) else digits (nat n))"

definition str_optional :: "string option \<Rightarrow> string" where
  \<comment> \<open>\<^verbatim>\<open>str(x)\<close> for an optional string: \<^verbatim>\<open>str(None)\<close> is the text \<^verbatim>\<open>None\<close>.\<close>
  "str_optional x = (case x of None \<Rightarrow> ''None'' | Some s \<Rightarrow> s)"

definition replacements :: "itinerary_request \<Rightarrow> (string \<times> string) list" where
  \<comment> \<open>lines 117-131: the dict, in insertion order\<close>
  "replacements user =
     [(''from_location'', from_location user),
      (''specific_location'', build_location_fallback (specific_places user) (categories user)),
      (''categories'', join_or_empty (categories user)),
      (''days'', str_int (days user)),
      (''currency'', currency user),
      (''budget'', str_optional (budget user)),
      (''intent'', join_or_empty (intent user)),
      (''group'', or_empty (group user)),
      (''stay'', or_empty (stay user)),
      (''notes'', or_empty (notes' user)),
      (''trip_type'', (case intent user of Some (i # _) \<Rightarrow> i | _ \<Rightarrow> ''general''))]"

function str_replace :: "string \<Rightarrow> string \<Rightarrow> string \<Rightarrow> string" where
  \<comment> \<open>\<^verbatim>\<open>s.replace(old, new)\<close>: the occurrences of \<^verbatim>\<open>old\<close> from the left, not overlapping;
      an empty \<^verbatim>\<open>old\<close> matches before every character and at the end.\<close>
  "str_replace s old new =
     (if old = [] then new @ concat (map (\<lambda>c. c # new) s)
      else (case s of
              [] \<Rightarrow> []
            | c # cs \<Rightarrow>
                if startswith s old then new @ str_replace (drop (length old) s) old new
                else c # str_replace cs old new))"
  by pat_completeness auto
termination
  by (relation "measure (\<lambda>(s, old, new). length s)") (auto simp: neq_Nil_conv)

declare str_replace.simps [simp del]

text \<open>
  \<^verbatim>\<open>txt.format(**replacements)\<close> belongs to Python. It is modelled on the templates whose
  replacement fields are plain names: literal text, the escapes \<^verbatim>\<open>{{\<close> and \<^verbatim>\<open>}}\<close>, and
  fields \<^verbatim>\<open>{name}\<close> without \<^verbatim>\<open>!\<close>, \<^verbatim>\<open>:\<close>, \<^verbatim>\<open>.\<close>, \<^verbatim>\<open>[\<close> or \<^verbatim>\<open>{\<close> in the name and not a number.
  There a lone brace raises \<^verbatim>\<open>ValueError\<close>, an empty name \<^verbatim>\<open>IndexError\<close> (no positional
  argument is passed), a name that is not a key \<^verbatim>\<open>KeyError\<close>, and a key stands for its
  value; the leftmost failure is the one raised. On every other template the result is
  a parameter \<^verbatim>\<open>ext\<close> of the model, any function to a string or an exception.
\<close>

definition field_value :: "(string \<times> string) list \<Rightarrow> string \<Rightarrow> exn + string" where
  "field_value kwargs name =
     (if name = [] then Inl IndexError
      else (case map_of kwargs name of None \<Rightarrow> Inl (KeyError name) | Some v \<Rightarrow> Inr v))"

definition emit :: "string \<Rightarrow> (exn + string) option \<Rightarrow> (exn + string) option" where
  \<comment> \<open>text written before the rest of the template is rendered\<close>
  "emit out r = map_option (map_sum id ((@) out)) r"

definition outside_fragment :: "string \<Rightarrow> bool" where
  \<open>outside_fragment name =
     (list_ex (\<lambda>x. x \<in> set ''{[!:.'') name
      \<or> (name \<noteq> [] \<and> list_all (\<lambda>x. x \<in> set ''0123456789'') name))\<close>

function format_scan :: "(string \<times> string) list \<Rightarrow> string \<Rightarrow> (exn + string) option" where
  \<comment> \<open>\<^verbatim>\<open>None\<close>: the template has a field outside the modelled fragment.\<close>
  "format_scan kwargs [] = Some (Inr [])"
| "format_scan kwargs (c # cs) =
     (if c = CHR ''{'' then
        (case cs of
           [] \<Rightarrow> Some (Inl (ValueError ''Single '{' encountered in format string''))
         | d # ds \<Rightarrow>
             if d = CHR ''{'' then emit ''{'' (format_scan kwargs ds)
             else
               (let name = takeWhile (\<lambda>x. x \<noteq> CHR ''}'') cs;
                    rest = dropWhile (\<lambda>x. x \<noteq> CHR ''}'') cs
                in if outside_fragment name then None
                   else if rest = [] then
                     Some (Inl (ValueError ''expected '}' before end of string''))
                   else (case field_value kwargs name of
                           Inl e \<Rightarrow> Some (Inl e)
                         | Inr v \<Rightarrow> emit v (format_scan kwargs (tl rest)))))
      else if c = CHR ''}'' then
        (case cs of
           [] \<Rightarrow> Some (Inl (ValueError ''Single '}' encountered in format string''))
         | d # ds \<Rightarrow>
             if d = CHR ''}'' then emit ''}'' (format_scan kwargs ds)
             else Some (Inl (ValueError ''Single '}' encountered in format string'')))
      else emit [c] (format_scan kwargs cs))"
  by pat_completeness auto
termination
proof (relation "measure (\<lambda>(kwargs, s). length s)")
  fix kwargs :: "(string \<times> string) list" and c :: char and cs :: string and d ds x xa
  assume "cs = d # ds" "xa = dropWhile (\<lambda>x. x \<noteq> CHR ''}'') cs" "xa \<noteq> []"
  then have "length (tl xa) < length cs"
    using length_dropWhile_le [of "\<lambda>x. x \<noteq> CHR ''}''" cs] by (cases xa) auto
  then show "((kwargs, tl xa), kwargs, c # cs) \<in> measure (\<lambda>(kwargs, s). length s)"
    by simp
qed auto

definition py_format ::
  "(string \<Rightarrow> (string \<times> string) list \<Rightarrow> exn + string) \<Rightarrow> string \<Rightarrow> (string \<times> string) list
     \<Rightarrow> exn + string" where
  "py_format ext txt kwargs =
     (case format_scan kwargs txt of Some r \<Rightarrow> r | None \<Rightarrow> ext txt kwargs)"

definition replace_all :: "string \<Rightarrow> (string \<times> string) list \<Rightarrow> string" where
  \<comment> \<open>lines 140-141: \<^verbatim>\<open>for k, v in replacements.items(): txt = txt.replace("{" + k + "}", v)\<close>\<close>
  "replace_all txt repl = foldl (\<lambda>t (k, v). str_replace t (''{'' @ k @ ''}'') v) txt repl"

definition render_text ::
  "(string \<Rightarrow> (string \<times> string) list \<Rightarrow> exn + string) \<Rightarrow> (string \<times> string) list
     \<Rightarrow> string \<Rightarrow> string" where
  \<comment> \<open>lines 136-141 on a template that is a string: \<^verbatim>\<open>format\<close>, and the replacement loop
      when \<^verbatim>\<open>format\<close> raises\<close>
  "render_text ext repl txt =
     (case py_format ext txt repl of
        Inr s \<Rightarrow> s
      | Inl e \<Rightarrow> replace_all txt repl)"

definition render_part ::
  "(string \<Rightarrow> (string \<times> string) list \<Rightarrow> exn + string) \<Rightarrow> (string \<times> string) list
     \<Rightarrow> prompt_part \<Rightarrow> exn + string" where
  \<comment> \<open>lines 135-142, the body of \<^verbatim>\<open>for p in parts\<close>. A \<^verbatim>\<open>text\<close> that is not a string has
      neither \<^verbatim>\<open>format\<close> nor \<^verbatim>\<open>replace\<close>: the handler catches the first
      \<^verbatim>\<open>AttributeError\<close> and raises the second.\<close>
  "render_part ext repl p =
     (case (case text' p of None \<Rightarrow> JStr [] | Some v \<Rightarrow> v) of
        JStr txt \<Rightarrow> Inr (strip (render_text ext repl txt))
      | _ \<Rightarrow> Inl AttributeError)"

definition build_master_prompt ::
  "(string \<Rightarrow> (string \<times> string) list \<Rightarrow> exn + string) \<Rightarrow> prompt_part list
     \<Rightarrow> itinerary_request \<Rightarrow> exn + string" where
  \<comment> \<open>lines 111-145; \<^verbatim>\<open>col\<close> is the content of the prompt collection\<close>
  "build_master_prompt ext col user =
     (let parts = get_prompt_parts col
      in if parts = [] then
           Inl (RuntimeError ''No prompt parts found in DB. Seed the 4 prompt parts first.'')
         else (case for_each (render_part ext (replacements user)) parts of
                 Inl e \<Rightarrow> Inl e
               | Inr merged_texts \<Rightarrow> Inr (join ''\<newline>\<newline>'' merged_texts)))"

text \<open>A template fragment of the specification: an ordinal and a body that is a string.\<close>

definition fragment :: "int \<Rightarrow> string \<Rightarrow> prompt_part" where
  "fragment i body = \<lparr>part_id = i, text' = Some (JStr body)\<rparr>"

text \<open>A request that gives every optional field as \<^verbatim>\<open>null\<close>.\<close>

definition paris :: itinerary_request where
  "paris = \<lparr>from_location = ''Paris'', specific_places = None, categories = None, days = 3,
     currency = ''EUR'', budget = None, intent = None, group = None, stay = None,
     notes' = None\<rparr>"

section \<open>Valid JSON texts\<close>


















definition calm :: "string \<Rightarrow> bool" where
  "calm u = list_all (\<lambda>c. c \<noteq> CHR ''{'' \<and> c \<noteq> CHR '','') u"




section \<open>The properties the specification states about activities\<close>

text \<open>
  The map-link invariant of the specification, as a predicate on an activity: the
  activity is a dict whose \<^verbatim>\<open>map_link\<close> is a non-empty string that starts with the
  canonical prefix.
\<close>

definition link_ok :: "json \<Rightarrow> bool" where
  "link_ok activity =
     (case getitem activity ''map_link'' of
        Inr (JStr l) \<Rightarrow> l \<noteq> [] \<and> startswith l maps_prefix
      | _ \<Rightarrow> False)"

text \<open>
  The activities the specification says get a synthesized link: \<^verbatim>\<open>map_link\<close> is
  missing, empty (any value Python reads as false), or a string that does not begin
  with the canonical prefix.
\<close>

definition needs_link :: "(string \<times> json) list \<Rightarrow> bool" where
  "needs_link d =
     (case map_of d ''map_link'' of
        None \<Rightarrow> True
      | Some (JStr l) \<Rightarrow> l = [] \<or> \<not> startswith l maps_prefix
      | Some v \<Rightarrow> \<not> truthy v)"

text \<open>A parsed response with one day and three activities, used to run the normalizer.\<close>

definition sample_days :: json where
  \<open>sample_days =
     JDict [(''days'', JList
       [JDict [(''day'', JInt 1),
               (''activities'', JList
                  [JDict [(''title'', JStr ''Eiffel Tower'')],
                   JDict [(''title'', JStr ''Louvre''), (''map_link'', JStr ''maps.example/louvre'')],
                   JDict [(''title'', JStr ''Seine''),
                          (''map_link'', JStr ''https://www.google.com/maps/place/Seine'')]])]])]\<close>

section \<open>Properties of the locator\<close>

text \<open>
  For every text: without \<^verbatim>\<open>{\<close> and \<^verbatim>\<open>[\<close> the locator returns the cleaned text; otherwise
  its start index is the position of a \<^verbatim>\<open>{\<close> or a \<^verbatim>\<open>[\<close> (the larger of the two first
  positions), and it returns the text from there to the end when the stack never
  empties, and to the position of the \<^verbatim>\<open>break\<close> otherwise.
\<close>

lemma locator_no_delimiter:
  assumes "raw \<noteq> []" and "CHR ''{'' \<notin> set (clean_fences raw)"
    and "CHR ''['' \<notin> set (clean_fences raw)"
  shows "extract_json_from_model_output raw = clean_fences raw"
  using assms
  by (simp add: extract_json_from_model_output_def start_index_def find_char_def)

lemma start_index_delimiter:
  assumes "CHR ''{'' \<in> set s \<or> CHR ''['' \<in> set s"
  shows "\<exists>i < length s. start_index s = int i \<and> (s ! i = CHR ''{'' \<or> s ! i = CHR ''['')"
proof -
  have at: "length (takeWhile (\<lambda>x. x \<noteq> c) s) < length s \<and>
            s ! length (takeWhile (\<lambda>x. x \<noteq> c) s) = c" if "c \<in> set s" for c
    using that by (induction s) auto
  show ?thesis
  proof (cases "CHR ''{'' \<in> set s"; cases "CHR ''['' \<in> set s")
    assume "CHR ''{'' \<in> set s" "CHR ''['' \<in> set s"
    then show ?thesis
      using at [of "CHR ''{''"] at [of "CHR ''[''"]
      by (auto simp: start_index_def find_char_def max_def)
  next
    assume "CHR ''{'' \<in> set s" "CHR ''['' \<notin> set s"
    then show ?thesis
      using at [of "CHR ''{''"] by (auto simp: start_index_def find_char_def max_def)
  next
    assume "CHR ''{'' \<notin> set s" "CHR ''['' \<in> set s"
    then show ?thesis
      using at [of "CHR ''[''"] by (auto simp: start_index_def find_char_def max_def)
  next
    assume "CHR ''{'' \<notin> set s" "CHR ''['' \<notin> set s"
    with assms show ?thesis by simp
  qed
qed

lemma locator_truncated:
  assumes "raw \<noteq> []" and "start_index (clean_fences raw) = int i"
    and "scan_close [] 0 (drop i (clean_fences raw)) = None"
  shows "extract_json_from_model_output raw = drop i (clean_fences raw)"
  using assms by (simp add: extract_json_from_model_output_def)

lemma locator_closed:
  assumes "raw \<noteq> []" and "start_index (clean_fences raw) = int i"
    and "scan_close [] 0 (drop i (clean_fences raw)) = Some n"
  shows "extract_json_from_model_output raw = take (Suc n) (drop i (clean_fences raw))"
  using assms by (simp add: extract_json_from_model_output_def slice_def)

text \<open>
  C1. On the text
  \<^verbatim>\<open>here is json ```json\n{"a":[1,{"b":2}]}\n```\nthanks\<close>
  the locator does not start at the earliest of the two opening delimiters: the
  start index is the larger of the first \<^verbatim>\<open>{\<close> and the first \<^verbatim>\<open>[\<close>, so the result is
  the inner array \<^verbatim>\<open>[1,{"b":2}]\<close> and not the object that encloses it.
\<close>

theorem locator_nested_example:
  \<open>extract_json_from_model_output
     ''here is json ```json\<newline>{"a":[1,{"b":2}]}\<newline>```\<newline>thanks''
   = ''[1,{"b":2}]''\<close>
  by code_simp

text \<open>
  C4. On the truncated text \<^verbatim>\<open>{"a": [1, 2\<close> the stack never empties and the locator
  returns the rest of the text from its start index; that index is the position of
  \<^verbatim>\<open>[\<close>, so the fragment returned is \<^verbatim>\<open>[1, 2\<close> and the leading \<^verbatim>\<open>{"a": \<close> is lost.
\<close>

theorem locator_truncated_example:
  \<open>extract_json_from_model_output ''{"a": [1, 2'' = ''[1, 2''\<close>
  by code_simp

section \<open>The normalizer: auxiliary facts\<close>

lemma map_of_dict_set:
  "map_of (dict_set k v d) k' = (if k' = k then Some v else map_of d k')"
  by (induction d) auto

lemma for_each_Inr_iff:
  "for_each f xs = Inr ys \<longleftrightarrow> list_all2 (\<lambda>x y. f x = Inr y) xs ys"
proof (induction xs arbitrary: ys)
  case Nil
  show ?case by auto
next
  case (Cons x xs)
  show ?case
    by (cases ys) (auto simp: Cons.IH [symmetric] split: sum.splits)
qed

lemma generated_link_prefix:
  "startswith (generate_google_maps_link t) maps_prefix"
  by (simp add: startswith_def generate_google_maps_link_def maps_prefix_def)

lemma generated_link_nonempty: "generate_google_maps_link t \<noteq> []"
  by (simp add: generate_google_maps_link_def)

lemma link_from_title_ok:
  assumes "link_from_title a = Inr a'"
  shows "link_ok a'"
  using assms
  by (cases a)
     (auto simp: link_from_title_def link_ok_def map_of_dict_set generated_link_prefix
        generated_link_nonempty split: option.splits sum.splits json.splits)

lemma link_from_title_dict:
  assumes "link_from_title a = Inr a'"
  shows "\<exists>d t. a = JDict d \<and> map_of d ''title'' = Some (JStr t) \<and>
            a' = JDict (dict_set ''map_link'' (JStr (generate_google_maps_link t)) d)"
  using assms
  by (cases a)
     (auto simp: link_from_title_def split: option.splits sum.splits json.splits)

lemma normalize_activity_ok:
  assumes "normalize_activity a = Inr a'"
  shows "link_ok a'"
proof (cases a)
  case (JDict d)
  show ?thesis
  proof (cases "map_of d ''map_link''")
    case None
    with JDict assms have "link_from_title a = Inr a'"
      by (simp add: normalize_activity_def)
    then show ?thesis by (rule link_from_title_ok)
  next
    case (Some link)
    show ?thesis
    proof (cases "truthy link")
      case False
      with JDict Some assms have "link_from_title a = Inr a'"
        by (simp add: normalize_activity_def)
      then show ?thesis by (rule link_from_title_ok)
    next
      case True
      with JDict Some assms obtain s where s: "link = JStr s"
        by (cases link) (auto simp: normalize_activity_def)
      show ?thesis
      proof (cases "startswith s maps_prefix")
        case False
        with JDict Some True s assms have "link_from_title a = Inr a'"
          by (simp add: normalize_activity_def)
        then show ?thesis by (rule link_from_title_ok)
      next
        case ok: True
        with JDict Some True s assms have "a' = a"
          by (simp add: normalize_activity_def)
        with JDict Some True s ok show ?thesis
          by (simp add: link_ok_def)
      qed
    qed
  qed
next
  case (JList xs)
  with assms show ?thesis
    by (auto simp: normalize_activity_def link_from_title_def split: if_splits)
next
  case (JStr s)
  with assms show ?thesis
    by (auto simp: normalize_activity_def link_from_title_def split: if_splits)
qed (use assms in \<open>auto simp: normalize_activity_def\<close>)

lemma normalize_activity_string: "normalize_activity (JStr s) = Inl TypeError"
  by (simp add: normalize_activity_def link_from_title_def)

lemma for_each_strings:
  assumes "for_each normalize_activity (map f xs) = Inr ys" and "\<And>x. \<exists>s. f x = JStr s"
  shows "xs = []"
proof (cases xs)
  case (Cons x xs')
  from assms(2) obtain s where "f x = JStr s" by blast
  with assms(1) Cons show ?thesis
    by (simp add: normalize_activity_string)
qed simp

lemma normalize_activities_Inr:
  assumes "normalize_activities (JDict d1) acts0 = Inr day'"
  shows "(\<exists>xs ys. acts0 = JList xs \<and> list_all2 (\<lambda>x y. normalize_activity x = Inr y) xs ys \<and>
            day' = JDict (dict_set ''activities'' (JList ys) d1))
         \<or> ((acts0 = JDict [] \<or> acts0 = JStr []) \<and> day' = JDict d1)"
proof (cases acts0)
  case (JList xs)
  with assms show ?thesis
    by (auto simp: normalize_activities_def for_each_Inr_iff split: sum.splits)
next
  case (JDict kv)
  with assms obtain ys where
    "for_each normalize_activity (map (\<lambda>(k, v). JStr k) kv) = Inr ys" and "day' = JDict d1"
    by (auto simp: normalize_activities_def split: sum.splits)
  moreover from this(1) have "kv = []"
    by (rule for_each_strings) auto
  ultimately show ?thesis using JDict by simp
next
  case (JStr s)
  with assms obtain ys where
    "for_each normalize_activity (map (\<lambda>c. JStr [c]) s) = Inr ys" and "day' = JDict d1"
    by (auto simp: normalize_activities_def split: sum.splits)
  moreover from this(1) have "s = []"
    by (rule for_each_strings) auto
  ultimately show ?thesis using JStr by simp
qed (use assms in \<open>auto simp: normalize_activities_def\<close>)

lemma normalize_day_Inr:
  assumes "normalize_day day = Inr day'"
  shows "\<exists>d d1 acts0. day = JDict d \<and> map_of d ''day'' \<noteq> None \<and>
           d1 = (if map_of d ''activities'' = None
                 then dict_set ''activities'' (JList []) d else d) \<and>
           map_of d1 ''activities'' = Some acts0 \<and>
           normalize_activities (JDict d1) acts0 = Inr day'"
  using assms
  by (cases day)
     (auto simp: normalize_day_def map_of_dict_set split: sum.splits if_splits option.splits)

lemma normalize_day_activities:
  assumes "normalize_day day = Inr day'"
  shows "\<exists>acts xs. getitem day' ''activities'' = Inr acts \<and> iterate acts = Inr xs \<and>
           (\<forall>a\<in>set xs. link_ok a)"
proof -
  from normalize_day_Inr [OF assms] obtain d d1 acts0 where
    d: "day = JDict d" and acts0: "map_of d1 ''activities'' = Some acts0"
    and na: "normalize_activities (JDict d1) acts0 = Inr day'"
    by blast
  from normalize_activities_Inr [OF na] show ?thesis
  proof
    assume "\<exists>xs ys. acts0 = JList xs \<and> list_all2 (\<lambda>x y. normalize_activity x = Inr y) xs ys \<and>
            day' = JDict (dict_set ''activities'' (JList ys) d1)"
    then obtain xs ys where l: "list_all2 (\<lambda>x y. normalize_activity x = Inr y) xs ys"
      and day': "day' = JDict (dict_set ''activities'' (JList ys) d1)"
      by blast
    have "link_ok a" if "a \<in> set ys" for a
    proof -
      from that l obtain x where "normalize_activity x = Inr a"
        by (auto simp: in_set_conv_nth list_all2_conv_all_nth)
      then show ?thesis by (rule normalize_activity_ok)
    qed
    moreover from day' have "getitem day' ''activities'' = Inr (JList ys)"
      by (simp add: map_of_dict_set)
    ultimately show ?thesis by auto
  next
    assume "(acts0 = JDict [] \<or> acts0 = JStr []) \<and> day' = JDict d1"
    with acts0 show ?thesis by auto
  qed
qed

lemma normalize_response_Inr:
  assumes "normalize_response data = Inr out"
  shows "\<exists>dd days days'. (data = JDict dd \<or> (data = JList days \<and> dd = [(''days'', data)])) \<and>
           map_of dd ''days'' = Some (JList days) \<and>
           list_all2 (\<lambda>x y. normalize_day x = Inr y) days days' \<and>
           out = JDict (dict_set ''days'' (JList days') dd)"
  using assms
  by (cases data)
     (auto simp: normalize_response_def wrap_days_def for_each_Inr_iff
        split: sum.splits if_splits option.splits json.splits)

lemma normalize_activity_synth:
  assumes "map_of d ''title'' = Some (JStr t)" and "needs_link d"
  shows "normalize_activity (JDict d) =
           Inr (JDict (dict_set ''map_link''
             (JStr (''https://www.google.com/maps/search/?api=1&query='' @ quote_plus t)) d))"
  using assms
  by (auto simp: normalize_activity_def needs_link_def link_from_title_def
        generate_google_maps_link_def split: option.splits json.splits)

lemma normalize_activity_keep:
  assumes "map_of d ''map_link'' = Some (JStr l)" and "startswith l maps_prefix"
  shows "normalize_activity (JDict d) = Inr (JDict d)"
proof -
  from assms(2) have "l \<noteq> []"
    by (auto simp: startswith_def maps_prefix_def)
  with assms show ?thesis
    by (simp add: normalize_activity_def)
qed

lemma eiffel:
  \<open>normalize_activity (JDict [(''title'', JStr ''Eiffel Tower'')]) =
     Inr (JDict [(''title'', JStr ''Eiffel Tower''),
                 (''map_link'', JStr ''https://www.google.com/maps/search/?api=1&query=Eiffel+Tower'')])\<close>
  by code_simp

lemma normalize_response_links:
  assumes "normalize_response data = Inr out"
  shows "\<exists>days. getitem out ''days'' = Inr (JList days) \<and>
           (\<forall>day\<in>set days. \<exists>acts xs. getitem day ''activities'' = Inr acts \<and>
              iterate acts = Inr xs \<and> (\<forall>a\<in>set xs. link_ok a))"
proof -
  from normalize_response_Inr [OF assms] obtain dd days days' where
    l: "list_all2 (\<lambda>x y. normalize_day x = Inr y) days days'"
    and out: "out = JDict (dict_set ''days'' (JList days') dd)"
    by blast
  have "\<forall>day\<in>set days'. \<exists>acts xs. getitem day ''activities'' = Inr acts \<and>
              iterate acts = Inr xs \<and> (\<forall>a\<in>set xs. link_ok a)"
  proof
    fix day'
    assume "day' \<in> set days'"
    with l obtain day where "normalize_day day = Inr day'"
      by (auto simp: in_set_conv_nth list_all2_conv_all_nth)
    then show "\<exists>acts xs. getitem day' ''activities'' = Inr acts \<and>
              iterate acts = Inr xs \<and> (\<forall>a\<in>set xs. link_ok a)"
      by (rule normalize_day_activities)
  qed
  moreover from out have "getitem out ''days'' = Inr (JList days')"
    by (simp add: map_of_dict_set)
  ultimately show ?thesis by blast
qed

lemma for_each_Inl:
  assumes "x \<in> set xs" and "f x = Inl e"
  shows "\<exists>e'. for_each f xs = Inl e'"
proof (cases "for_each f xs")
  case (Inr ys)
  then have "list_all2 (\<lambda>x y. f x = Inr y) xs ys"
    by (simp add: for_each_Inr_iff)
  with assms(1) obtain y where "f x = Inr y"
    by (auto simp: in_set_conv_nth list_all2_conv_all_nth)
  with assms(2) show ?thesis by simp
qed blast

lemma normalize_day_days_string: "normalize_day (JStr ''days'') = Inl TypeError"
  by code_simp

lemma http_response_Inl:
  "http_response (Inl e) = http_response (Inl e')"
  by (simp add: http_response_def)

lemma wrap_exact:
  assumes "JStr ''days'' \<notin> set xs"
  shows "normalize_response (JList xs) = normalize_response (JDict [(''days'', JList xs)])"
  using assms by (simp add: normalize_response_def wrap_days_def)

lemma wrap_observed:
  "http_response (normalize_response (JList xs)) =
   http_response (normalize_response (JDict [(''days'', JList xs)]))"
proof (cases "JStr ''days'' \<in> set xs")
  case False
  then show ?thesis by (simp add: wrap_exact)
next
  case True
  then obtain e where "for_each normalize_day xs = Inl e"
    using for_each_Inl [of "JStr ''days''" xs normalize_day TypeError]
      normalize_day_days_string by blast
  then have "normalize_response (JDict [(''days'', JList xs)]) = Inl e"
    by (simp add: normalize_response_def wrap_days_def)
  moreover from True have "normalize_response (JList xs) = Inl TypeError"
    by (simp add: normalize_response_def wrap_days_def)
  ultimately show ?thesis by (simp add: http_response_Inl)
qed

lemma missing_days:
  assumes "map_of d ''days'' = None"
  shows "normalize_response (JDict d) = Inl (ValueError ''Response missing 'days' array'')"
  using assms by (simp add: normalize_response_def wrap_days_def)

lemma days_not_array:
  assumes "map_of d ''days'' = Some v" and "\<forall>xs. v \<noteq> JList xs"
  shows "normalize_response (JDict d) = Inl (ValueError '''days' should be an array'')"
  using assms by (cases v) (simp_all add: normalize_response_def wrap_days_def)

lemma scalar_fails:
  assumes "\<forall>xs. data \<noteq> JList xs" and "\<forall>d. data \<noteq> JDict d"
  shows "\<exists>e. normalize_response data = Inl e"
  using assms
  by (cases data) (auto simp: normalize_response_def wrap_days_def split: sum.splits)

lemma success_has_days:
  assumes "normalize_response data = Inr out"
  shows "\<exists>days days'. (data = JList days \<or> getitem data ''days'' = Inr (JList days)) \<and>
           getitem out ''days'' = Inr (JList days') \<and> length days' = length days"
proof -
  from normalize_response_Inr [OF assms] obtain dd days days' where
    d: "data = JDict dd \<or> (data = JList days \<and> dd = [(''days'', data)])"
    and m: "map_of dd ''days'' = Some (JList days)"
    and l: "list_all2 (\<lambda>x y. normalize_day x = Inr y) days days'"
    and out: "out = JDict (dict_set ''days'' (JList days') dd)"
    by blast
  from d m have "data = JList days \<or> getitem data ''days'' = Inr (JList days)"
    by auto
  moreover from out have "getitem out ''days'' = Inr (JList days')"
    by (simp add: map_of_dict_set)
  moreover from l have "length days' = length days"
    by (simp add: list_all2_lengthD)
  ultimately show ?thesis by blast
qed

lemma handle_output_fails:
  assumes "parse_json_text loads (select_json_text raw) = Inr data"
    and "normalize_response data = Inl e"
  shows "handle_output loads raw = Inl (HTTPException 500
      ''We couldn't process the AI response. Please try again with different parameters.'')"
  using assms by (simp add: handle_output_def interpret_output_def http_response_def)

lemma dict_set_absent:
  "map_of d k = None \<Longrightarrow> dict_set k v d = d @ [(k, v)]"
  by (induction d) (auto split: if_splits)

lemma dict_set_same:
  "map_of d k = Some v \<Longrightarrow> dict_set k v d = d"
  by (induction d) (auto split: if_splits)

lemma default_activities:
  assumes "map_of d ''activities'' = None" and "map_of d ''day'' \<noteq> None"
  shows "normalize_day (JDict d) = Inr (JDict (d @ [(''activities'', JList [])]))"
proof -
  let ?d1 = "d @ [(''activities'', JList [])]"
  have m: "map_of ?d1 ''activities'' = Some (JList [])"
    using assms(1) by (simp add: map_add_def)
  have "dict_set ''activities'' (JList []) ?d1 = ?d1"
    by (rule dict_set_same [OF m])
  with assms m show ?thesis
    by (auto simp: normalize_day_def dict_set_absent normalize_activities_def map_add_def
          split: option.splits)
qed

lemma missing_day_number:
  assumes "map_of d ''day'' = None"
  shows "normalize_day (JDict d) = Inl (ValueError ''Each day must have a 'day' number'')"
  using assms
  by (auto simp: normalize_day_def map_of_dict_set)

lemma missing_day_number_fails:
  assumes "data = JList ds \<or> getitem data ''days'' = Inr (JList ds)"
    and "JDict d \<in> set ds" and "map_of d ''day'' = None"
  shows "\<exists>e. normalize_response data = Inl e"
proof (cases "normalize_response data")
  case (Inr out)
  from normalize_response_Inr [OF Inr] obtain dd days0 days' where
    d: "data = JDict dd \<or> (data = JList days0 \<and> dd = [(''days'', data)])"
    and m: "map_of dd ''days'' = Some (JList days0)"
    and l: "list_all2 (\<lambda>x y. normalize_day x = Inr y) days0 days'"
    by blast
  from d m assms(1) have "days0 = ds"
    by (auto split: option.splits)
  with l assms(2) obtain y where "normalize_day (JDict d) = Inr y"
    by (auto simp: in_set_conv_nth list_all2_conv_all_nth)
  with missing_day_number [OF assms(3)] show ?thesis by simp
qed blast

lemma normalize_day_keeps_day:
  assumes "normalize_day day = Inr day'"
  shows "\<exists>v. getitem day ''day'' = Inr v \<and> getitem day' ''day'' = Inr v"
proof -
  from normalize_day_Inr [OF assms] obtain d d1 acts0 where
    d: "day = JDict d" and dn: "map_of d ''day'' \<noteq> None"
    and d1: "d1 = (if map_of d ''activities'' = None
                 then dict_set ''activities'' (JList []) d else d)"
    and na: "normalize_activities (JDict d1) acts0 = Inr day'"
    by blast
  from dn obtain v where v: "map_of d ''day'' = Some v" by blast
  with d1 have v1: "map_of d1 ''day'' = Some v"
    by (simp add: map_of_dict_set)
  from normalize_activities_Inr [OF na] v1 have "getitem day' ''day'' = Inr v"
    by (auto simp: map_of_dict_set)
  with d v show ?thesis by simp
qed

lemma day_never_defaulted:
  assumes "normalize_response data = Inr out"
  shows "\<exists>days days'. (data = JList days \<or> getitem data ''days'' = Inr (JList days)) \<and>
           getitem out ''days'' = Inr (JList days') \<and>
           list_all2 (\<lambda>day day'. \<exists>v. getitem day ''day'' = Inr v \<and> getitem day' ''day'' = Inr v)
             days days'"
proof -
  from normalize_response_Inr [OF assms] obtain dd days days' where
    d: "data = JDict dd \<or> (data = JList days \<and> dd = [(''days'', data)])"
    and m: "map_of dd ''days'' = Some (JList days)"
    and l: "list_all2 (\<lambda>x y. normalize_day x = Inr y) days days'"
    and out: "out = JDict (dict_set ''days'' (JList days') dd)"
    by blast
  from d m have "data = JList days \<or> getitem data ''days'' = Inr (JList days)"
    by auto
  moreover from out have "getitem out ''days'' = Inr (JList days')"
    by (simp add: map_of_dict_set)
  moreover from l have "list_all2 (\<lambda>day day'. \<exists>v. getitem day ''day'' = Inr v \<and> getitem day' ''day'' = Inr v)
             days days'"
    by (rule list_all2_mono) (rule normalize_day_keeps_day)
  ultimately show ?thesis by blast
qed

section \<open>Properties of the normalizer\<close>

text \<open>
  C2. Whenever the normalizer returns a result, every day of the result has
  \<^verbatim>\<open>activities\<close>, and every activity that a loop over them yields has a non-empty
  \<^verbatim>\<open>map_link\<close> that starts with \<^verbatim>\<open>https://www.google.com/maps/\<close>. An activity whose link is missing, empty or does
  not begin with that prefix gets the link built from its title by \<^verbatim>\<open>quote_plus\<close>; a
  link that begins with the prefix is kept; the activity titled \<^verbatim>\<open>Eiffel Tower\<close> with
  no link gets \<^verbatim>\<open>https://www.google.com/maps/search/?api=1&query=Eiffel+Tower\<close>.
\<close>

theorem map_link_invariant:
  \<open>(\<forall>data out. normalize_response data = Inr out \<longrightarrow>
      (\<exists>days. getitem out ''days'' = Inr (JList days) \<and>
         (\<forall>day\<in>set days. \<exists>acts xs. getitem day ''activities'' = Inr acts \<and>
            iterate acts = Inr xs \<and> (\<forall>a\<in>set xs. link_ok a))))
   \<and> (\<forall>d t. map_of d ''title'' = Some (JStr t) \<longrightarrow> needs_link d \<longrightarrow>
         normalize_activity (JDict d) =
           Inr (JDict (dict_set ''map_link''
             (JStr (''https://www.google.com/maps/search/?api=1&query='' @ quote_plus t)) d)))
   \<and> (\<forall>d l. map_of d ''map_link'' = Some (JStr l) \<longrightarrow> startswith l maps_prefix \<longrightarrow>
         normalize_activity (JDict d) = Inr (JDict d))
   \<and> normalize_activity (JDict [(''title'', JStr ''Eiffel Tower'')]) =
       Inr (JDict [(''title'', JStr ''Eiffel Tower''),
                   (''map_link'',
                    JStr ''https://www.google.com/maps/search/?api=1&query=Eiffel+Tower'')])\<close>
  using normalize_response_links normalize_activity_synth normalize_activity_keep eiffel
  by blast

theorem map_link_invariant_witness:
  \<open>normalize_response sample_days =
     Inr (JDict [(''days'', JList
       [JDict [(''day'', JInt 1),
               (''activities'', JList
                  [JDict [(''title'', JStr ''Eiffel Tower''),
                          (''map_link'', JStr ''https://www.google.com/maps/search/?api=1&query=Eiffel+Tower'')],
                   JDict [(''title'', JStr ''Louvre''),
                          (''map_link'', JStr ''https://www.google.com/maps/search/?api=1&query=Louvre'')],
                   JDict [(''title'', JStr ''Seine''),
                          (''map_link'', JStr ''https://www.google.com/maps/place/Seine'')]])]])])
   \<and> link_ok (JDict [(''title'', JStr ''Louvre''),
                 (''map_link'', JStr ''https://www.google.com/maps/search/?api=1&query=Louvre'')])
   \<and> needs_link [(''title'', JStr ''Louvre''), (''map_link'', JStr ''maps.example/louvre'')]\<close>
proof -
  let ?out = \<open>JDict [(''days'', JList
       [JDict [(''day'', JInt 1),
               (''activities'', JList
                  [JDict [(''title'', JStr ''Eiffel Tower''),
                          (''map_link'', JStr ''https://www.google.com/maps/search/?api=1&query=Eiffel+Tower'')],
                   JDict [(''title'', JStr ''Louvre''),
                          (''map_link'', JStr ''https://www.google.com/maps/search/?api=1&query=Louvre'')],
                   JDict [(''title'', JStr ''Seine''),
                          (''map_link'', JStr ''https://www.google.com/maps/place/Seine'')]])]])]\<close>
  have run: "normalize_response sample_days = Inr ?out"
    unfolding sample_days_def by code_simp
  from map_link_invariant run
  have "\<exists>days. getitem ?out ''days'' = Inr (JList days) \<and>
         (\<forall>day\<in>set days. \<exists>acts xs. getitem day ''activities'' = Inr acts \<and>
            iterate acts = Inr xs \<and> (\<forall>a\<in>set xs. link_ok a))"
    by blast
  then have "link_ok (JDict [(''title'', JStr ''Louvre''),
                 (''map_link'', JStr ''https://www.google.com/maps/search/?api=1&query=Louvre'')])"
    by simp
  moreover have "needs_link [(''title'', JStr ''Louvre''), (''map_link'', JStr ''maps.example/louvre'')]"
    by (simp add: needs_link_def startswith_def maps_prefix_def)
  ultimately show ?thesis using run by simp
qed

text \<open>
  C5. A top-level array is handled as \<^verbatim>\<open>{"days": <array>}\<close>: the two give the same
  result when the array does not hold the string \<^verbatim>\<open>days\<close> as an element, and the same
  HTTP response in every case. A dict without \<^verbatim>\<open>days\<close> fails with the
  \<^verbatim>\<open>ValueError\<close> "Response missing 'days' array", a dict whose \<^verbatim>\<open>days\<close> is not a list
  with "'days' should be an array", and any value that is neither a list nor a dict
  fails too; each failure reaches the caller as the HTTP 500 error. A result is
  returned only when the input had a \<^verbatim>\<open>days\<close> list, and the result has as many days.
\<close>

theorem days_required:
  "(JStr ''days'' \<notin> set xs \<longrightarrow>
      normalize_response (JList xs) = normalize_response (JDict [(''days'', JList xs)]))
   \<and> http_response (normalize_response (JList xs)) =
       http_response (normalize_response (JDict [(''days'', JList xs)]))
   \<and> (map_of d ''days'' = None \<longrightarrow>
        normalize_response (JDict d) = Inl (ValueError ''Response missing 'days' array''))
   \<and> (map_of d' ''days'' = Some v \<longrightarrow> (\<forall>ys. v \<noteq> JList ys) \<longrightarrow>
        normalize_response (JDict d') = Inl (ValueError '''days' should be an array''))
   \<and> ((\<forall>ys. data \<noteq> JList ys) \<longrightarrow> (\<forall>dd. data \<noteq> JDict dd) \<longrightarrow>
        (\<exists>e. normalize_response data = Inl e))
   \<and> (parse_json_text loads (select_json_text raw) = Inr data' \<longrightarrow>
        normalize_response data' = Inl e' \<longrightarrow>
        handle_output loads raw = Inl (HTTPException 500
          ''We couldn't process the AI response. Please try again with different parameters.''))
   \<and> (normalize_response data'' = Inr out \<longrightarrow>
        (\<exists>days days'. (data'' = JList days \<or> getitem data'' ''days'' = Inr (JList days)) \<and>
           getitem out ''days'' = Inr (JList days') \<and> length days' = length days))"
  using wrap_exact [of xs] wrap_observed [of xs] missing_days [of d] days_not_array [of d' v]
    scalar_fails [of data] handle_output_fails [of loads raw data' e']
    success_has_days [of data'' out]
  by blast

theorem days_required_witness:
  \<open>JStr ''days'' \<notin> set [JDict [(''day'', JInt 1)]]
   \<and> normalize_response (JList [JDict [(''day'', JInt 1)]]) =
       normalize_response (JDict [(''days'', JList [JDict [(''day'', JInt 1)]])])
   \<and> map_of [(''itinerary'', JList [])] ''days'' = None
   \<and> normalize_response (JDict [(''itinerary'', JList [])]) =
       Inl (ValueError ''Response missing 'days' array'')
   \<and> map_of [(''days'', JStr ''three'')] ''days'' = Some (JStr ''three'')
   \<and> normalize_response (JDict [(''days'', JStr ''three'')]) =
       Inl (ValueError '''days' should be an array'')
   \<and> (\<exists>e. normalize_response (JInt 7) = Inl e)
   \<and> parse_json_text (\<lambda>s. Inr (JDict [])) (select_json_text []) = Inr (JDict [])
   \<and> handle_output (\<lambda>s. Inr (JDict [])) [] = Inl (HTTPException 500
          ''We couldn't process the AI response. Please try again with different parameters.'')
   \<and> normalize_response (JList [JDict [(''day'', JInt 1)]]) =
       Inr (JDict [(''days'', JList [JDict [(''day'', JInt 1), (''activities'', JList [])]])])\<close>
proof -
  have run: \<open>normalize_response (JList [JDict [(''day'', JInt 1)]]) =
       Inr (JDict [(''days'', JList [JDict [(''day'', JInt 1), (''activities'', JList [])]])])\<close>
    by code_simp
  have p: "parse_json_text (\<lambda>s. Inr (JDict [])) (select_json_text []) = Inr (JDict [])"
    by (simp add: parse_json_text_def)
  have m: "normalize_response (JDict []) = Inl (ValueError ''Response missing 'days' array'')"
    by code_simp
  show ?thesis
    using days_required [of "[JDict [(''day'', JInt 1)]]" "[(''itinerary'', JList [])]"
        "[(''days'', JStr ''three'')]" "JStr ''three''" "JInt 7" "\<lambda>s. Inr (JDict [])" "[]"
        "JDict []" "ValueError ''Response missing 'days' array''"
        "JList [JDict [(''day'', JInt 1)]]"
        "JDict [(''days'', JList [JDict [(''day'', JInt 1), (''activities'', JList [])]])]"]
      run p m
    by simp
qed


text \<open>
  C6. A day without \<^verbatim>\<open>activities\<close> (and with \<^verbatim>\<open>day\<close>) gets \<^verbatim>\<open>activities = []\<close>. A day
  without \<^verbatim>\<open>day\<close> fails with the \<^verbatim>\<open>ValueError\<close> "Each day must have a 'day' number",
  and a response that holds such a day fails as a whole, with the HTTP 500 error.
  Whenever a result is returned, every day of it has the \<^verbatim>\<open>day\<close> value the input
  gave it: the day number is never defaulted.
\<close>

theorem day_entries:
  "(map_of d ''activities'' = None \<longrightarrow> map_of d ''day'' \<noteq> None \<longrightarrow>
      normalize_day (JDict d) = Inr (JDict (d @ [(''activities'', JList [])])))
   \<and> (map_of d' ''day'' = None \<longrightarrow>
        normalize_day (JDict d') = Inl (ValueError ''Each day must have a 'day' number''))
   \<and> ((data = JList day_list \<or> getitem data ''days'' = Inr (JList day_list)) \<longrightarrow>
        JDict d' \<in> set day_list \<longrightarrow> map_of d' ''day'' = None \<longrightarrow>
        (\<exists>e. normalize_response data = Inl e) \<and>
        http_response (normalize_response data) = Inl (HTTPException 500
          ''We couldn't process the AI response. Please try again with different parameters.''))
   \<and> (normalize_response data' = Inr out \<longrightarrow>
        (\<exists>ds ds'. (data' = JList ds \<or> getitem data' ''days'' = Inr (JList ds)) \<and>
           getitem out ''days'' = Inr (JList ds') \<and>
           list_all2 (\<lambda>day day'. \<exists>v. getitem day ''day'' = Inr v \<and> getitem day' ''day'' = Inr v)
             ds ds'))"
proof -
  have "http_response (normalize_response data) = Inl (HTTPException 500
          ''We couldn't process the AI response. Please try again with different parameters.'')"
    if "\<exists>e. normalize_response data = Inl e"
    using that by (auto simp: http_response_def)
  then show ?thesis
    using default_activities [of d] missing_day_number [of d']
      missing_day_number_fails [of data day_list d'] day_never_defaulted [of data' out]
    by blast
qed

theorem day_entries_witness:
  \<open>map_of [(''day'', JInt 2)] ''activities'' = None
   \<and> map_of [(''day'', JInt 2)] ''day'' \<noteq> None
   \<and> normalize_day (JDict [(''day'', JInt 2)]) =
       Inr (JDict [(''day'', JInt 2), (''activities'', JList [])])
   \<and> map_of [(''title'', JStr ''Arrival'')] ''day'' = None
   \<and> normalize_day (JDict [(''title'', JStr ''Arrival'')]) =
       Inl (ValueError ''Each day must have a 'day' number'')
   \<and> JDict [(''title'', JStr ''Arrival'')] \<in>
        set [JDict [(''day'', JInt 1)], JDict [(''title'', JStr ''Arrival'')]]
   \<and> http_response (normalize_response
        (JList [JDict [(''day'', JInt 1)], JDict [(''title'', JStr ''Arrival'')]])) =
       Inl (HTTPException 500
          ''We couldn't process the AI response. Please try again with different parameters.'')
   \<and> normalize_response (JList [JDict [(''day'', JInt 2)]]) =
       Inr (JDict [(''days'', JList [JDict [(''day'', JInt 2), (''activities'', JList [])]])])\<close>
proof -
  have run: \<open>normalize_response (JList [JDict [(''day'', JInt 2)]]) =
       Inr (JDict [(''days'', JList [JDict [(''day'', JInt 2), (''activities'', JList [])]])])\<close>
    by code_simp
  show ?thesis
    using day_entries [of "[(''day'', JInt 2)]" "[(''title'', JStr ''Arrival'')]"
        "JList [JDict [(''day'', JInt 1)], JDict [(''title'', JStr ''Arrival'')]]"
        "[JDict [(''day'', JInt 1)], JDict [(''title'', JStr ''Arrival'')]]"
        "JList [JDict [(''day'', JInt 2)]]"
        "JDict [(''days'', JList [JDict [(''day'', JInt 2), (''activities'', JList [])]])]"]
      run
    by simp
qed


section \<open>Properties of the text handed to the parser\<close>














text \<open>
  The two lemmas above describe lines 340-352 for every text: a match of \<^verbatim>\<open>\{.*\}\<close> runs
  from the first \<^verbatim>\<open>{\<close> of the raw text to its last \<^verbatim>\<open>}\<close>, and the text handed to the
  parser is the locator's output or that match. The third stage never contributes: it
  is reached only when \<^verbatim>\<open>\{.*\}\<close> has no match, and then \<^verbatim>\<open>\[\s*\{.*\}\s*\]\<close> has none either.
\<close>

lemma select_json_text_fallbacks:
  "select_json_text raw =
     days_fallback raw (object_fallback raw (extract_json_from_model_output raw))"
  unfolding select_json_text_def object_fallback_def days_fallback_def Let_def by simp

lemma array_payload_first_object:
  \<open>select_json_text ''[{"day": 1}, {"day": 2}]'' = ''{"day": 1}''\<close>
  by code_simp



section \<open>Properties of the prompt builder\<close>






lemma insort_key_map:
  "insort_key g (f x) (map f ys) = map f (insort_key (\<lambda>y. g (f y)) x ys)"
  by (induction ys) auto

lemma sort_key_map:
  "sort_key g (map f xs) = map f (sort_key (\<lambda>y. g (f y)) xs)"
  by (induction xs) (auto simp: insort_key_map)

lemma get_prompt_parts_fragments:
  "get_prompt_parts (map (\<lambda>(i, body). fragment i body) xs) =
     map (\<lambda>(i, body). fragment i body) (sort_key fst xs)"
proof -
  have "(\<lambda>y. part_id (case y of (i, body) \<Rightarrow> fragment i body)) = fst"
    by (auto simp: fragment_def)
  then show ?thesis
    by (simp add: get_prompt_parts_def sort_key_map)
qed

lemma for_each_fragments:
  "for_each (render_part ext repl) (map (\<lambda>(i, body). fragment i body) ys) =
     Inr (map (\<lambda>(i, body). strip (render_text ext repl body)) ys)"
  by (induction ys) (auto simp: render_part_def fragment_def)

lemma sort_key_Nil_iff: "sort_key f xs = [] \<longleftrightarrow> xs = []"
  by (metis length_sort list.size(3) length_0_conv)

lemma merged_in_order:
  assumes "xs \<noteq> []"
  shows "build_master_prompt ext (map (\<lambda>(i, body). fragment i body) xs) user =
     Inr (join ''\<newline>\<newline>''
       (map (\<lambda>(i, body). strip (render_text ext (replacements user) body)) (sort_key fst xs)))"
  using assms
  by (simp add: build_master_prompt_def get_prompt_parts_fragments for_each_fragments
        sort_key_Nil_iff)

lemma no_parts:
  "build_master_prompt ext [] user =
     Inl (RuntimeError ''No prompt parts found in DB. Seed the 4 prompt parts first.'')"
  by (simp add: build_master_prompt_def get_prompt_parts_def)

lemma three_fragments:
  \<open>build_master_prompt ext
      [fragment 3 ''third: {days} days'', fragment 1 '' first: from {from_location} '',
       fragment 2 ''second'']
      paris =
    Inr ''first: from Paris\<newline>\<newline>second\<newline>\<newline>third: 3 days''\<close>
proof -
  have s: "get_prompt_parts [fragment 3 ''third: {days} days'',
              fragment 1 '' first: from {from_location} '', fragment 2 ''second''] =
           [fragment 1 '' first: from {from_location} '', fragment 2 ''second'',
            fragment 3 ''third: {days} days'']"
    by (simp add: get_prompt_parts_def fragment_def)
  have 1: \<open>format_scan (replacements paris) '' first: from {from_location} ''
            = Some (Inr '' first: from Paris '')\<close>
    by code_simp
  have 2: \<open>format_scan (replacements paris) ''second'' = Some (Inr ''second'')\<close>
    by code_simp
  have 3: \<open>format_scan (replacements paris) ''third: {days} days''
            = Some (Inr ''third: 3 days'')\<close>
    by code_simp
  have 4: \<open>strip '' first: from Paris '' = ''first: from Paris''\<close>
    \<open>strip ''second'' = ''second''\<close> \<open>strip ''third: 3 days'' = ''third: 3 days''\<close>
    by code_simp+
  show ?thesis
    unfolding build_master_prompt_def s Let_def
    by (simp add: render_part_def fragment_def render_text_def py_format_def 1 2 3 4
          del: format_scan.simps)
qed




text \<open>
  C8. For a non-empty collection of fragments with distinct ordinals the master prompt is the rendered bodies,
  each stripped, in ascending order of their ordinals, joined by one blank line; the
  fragments with ordinals 3, 1, 2 appear in the order 1, 2, 3. For an empty collection
  the builder raises \<^verbatim>\<open>RuntimeError\<close> "No prompt parts found in DB. Seed the 4 prompt
  parts first.".
\<close>

theorem merge_order:
  \<open>(xs \<noteq> [] \<longrightarrow> distinct (map fst xs) \<longrightarrow>
      build_master_prompt ext (map (\<lambda>(i, body). fragment i body) xs) user =
        Inr (join ''\<newline>\<newline>''
          (map (\<lambda>(i, body). strip (render_text ext (replacements user) body))
             (sort_key fst xs))))
   \<and> sorted (map fst (sort_key fst xs)) \<and> mset (sort_key fst xs) = mset xs
   \<and> build_master_prompt ext [] user =
       Inl (RuntimeError ''No prompt parts found in DB. Seed the 4 prompt parts first.'')
   \<and> build_master_prompt ext
        [fragment 3 ''third: {days} days'', fragment 1 '' first: from {from_location} '',
         fragment 2 ''second'']
        paris =
       Inr ''first: from Paris\<newline>\<newline>second\<newline>\<newline>third: 3 days''\<close>
  using merged_in_order [of xs ext user] no_parts [of ext user] three_fragments [of ext]
  by simp

theorem merge_order_witness:
  \<open>[(2 :: int, ''b''), (1, ''a'')] \<noteq> [] \<and> distinct (map fst [(2 :: int, ''b''), (1, ''a'')])
   \<and> build_master_prompt (\<lambda>t kw. Inr []) [fragment 2 ''b'', fragment 1 ''a''] paris =
       Inr ''a\<newline>\<newline>b''\<close>
proof -
  have r: \<open>strip (render_text (\<lambda>t kw. Inr []) (replacements paris) ''a'') = ''a''\<close>
    \<open>strip (render_text (\<lambda>t kw. Inr []) (replacements paris) ''b'') = ''b''\<close>
    by code_simp+
  have s: "sort_key fst [(2 :: int, ''b''), (1, ''a'')] = [(1, ''a''), (2, ''b'')]"
    by simp
  from merge_order [of "[(2, ''b''), (1, ''a'')]" "\<lambda>t kw. Inr []" paris]
  show ?thesis
    by (simp add: s r)
qed


text \<open>
  C9. For a request whose \<^verbatim>\<open>budget\<close> is \<^verbatim>\<open>null\<close> the substitution set holds the text
  \<^verbatim>\<open>None\<close> under \<^verbatim>\<open>budget\<close>, not the empty string; the lists are comma-joined and the
  other absent fields are empty.
\<close>

theorem null_budget_example:
  \<open>replacements
     \<lparr>from_location = ''Paris'', specific_places = Some '''', categories = Some [], days = 3,
      currency = ''EUR'', budget = None, intent = Some [''food'', ''art''], group = None,
      stay = None, notes' = None\<rparr> =
   [(''from_location'', ''Paris''), (''specific_location'', ''''), (''categories'', ''''),
    (''days'', ''3''), (''currency'', ''EUR''), (''budget'', ''None''),
    (''intent'', ''food, art''), (''group'', ''''), (''stay'', ''''), (''notes'', ''''),
    (''trip_type'', ''food'')]\<close>
  by code_simp


section \<open>Properties of the repair\<close>








lemma calm_append [simp]: "calm (u @ v) = (calm u \<and> calm v)"
  by (simp add: calm_def)





































end
